theory Spec2Isabelle
  imports Complex_Main
begin

section \<open>Python values, exceptions and list indexing\<close>

text \<open>
  The values that can sit in an attribute dictionary or be handed to a filter: Python's
  \<open>None\<close>, booleans, unbounded integers, floats and strings. A float is one of the two
  infinities, a NaN, or a finite number; a finite float is kept as the rational number it
  denotes (the two zeros denote the same number), which is all that \<open>==\<close> looks at.
\<close>

datatype pyfloat = Finite rat | PosInf | NegInf | NaN

datatype pyval = PNone | PBool bool | PInt int | PFloat pyfloat | PStr string

text \<open>
  The number a numeric value stands for: \<open>bool\<close> is a subclass of \<open>int\<close> with \<open>True\<close> as 1
  and \<open>False\<close> as 0. \<open>None\<close> and strings are not numbers.
\<close>

fun py_number :: "pyval \<Rightarrow> pyfloat option" where
  "py_number (PBool b) = Some (Finite (if b then 1 else 0))"
| "py_number (PInt n) = Some (Finite (of_int n))"
| "py_number (PFloat x) = Some x"
| "py_number PNone = None"
| "py_number (PStr a) = None"

text \<open>
  Python's \<open>==\<close> on these values. \<open>None\<close> equals only \<open>None\<close> and a string only the same
  string. Numbers are compared by the number they stand for, exactly and whatever their
  types, so \<open>True == 1\<close>, \<open>1 == 1.0\<close> and \<open>0.0 == -0.0\<close> hold; a NaN equals nothing, itself
  included. A string or \<open>None\<close> never equals a number.
\<close>

fun py_eq :: "pyval \<Rightarrow> pyval \<Rightarrow> bool" where
  "py_eq PNone PNone = True"
| "py_eq (PStr a) (PStr b) = (a = b)"
| "py_eq a b =
     (case (py_number a, py_number b) of
        (Some x, Some y) \<Rightarrow> x \<noteq> NaN \<and> x = y
      | _ \<Rightarrow> False)"

text \<open>\<open>d.get(k)\<close>: the stored value, or \<open>None\<close> when the key is missing.\<close>

definition dict_get :: "(string \<rightharpoonup> pyval) \<Rightarrow> string \<Rightarrow> pyval" where
  "dict_get d k = (case d k of None \<Rightarrow> PNone | Some v \<Rightarrow> v)"

text \<open>
  The exceptions the modelled code can meet: a failure of the search cursor, the
  \<open>ValueError\<close> that \<open>_load_features\<close> raises itself, and the \<open>IndexError\<close> of a list read.
\<close>

datatype exn = SourceReadError | ValueError | IndexError

text \<open>
  \<open>xs[i]\<close>: a negative index counts from the end, anything outside \<open>[-len, len)\<close>
  raises \<open>IndexError\<close> (here \<open>None\<close>).
\<close>

definition list_item :: "'a list \<Rightarrow> int \<Rightarrow> 'a option" where
  "list_item xs i =
     (if 0 \<le> i \<and> i < int (length xs) then Some (xs ! nat i)
      else if - int (length xs) \<le> i \<and> i < 0 then Some (xs ! nat (int (length xs) + i))
      else None)"

section \<open>The search cursor\<close>

text \<open>
  \<open>arcpy.da.SearchCursor(datasource, ['OID@', 'SHAPE@'])\<close> is an external iterator. It is
  modelled by what it does when iterated: it yields rows \<open>(oid, geometry)\<close>, the identifier
  possibly \<open>None\<close>, and it may raise at any point (\<open>ReadFailure\<close>), after which nothing more
  is read. The geometry type \<open>'g\<close> is opaque.
\<close>

datatype 'g cursor_item = Row "int option" 'g | ReadFailure

section \<open>navigateLayerArcGISPro.py: class FeatureNavigator\<close>

text \<open>
  A stored feature is the dictionary \<open>{'oid': .., 'geometry': .., 'attributes': {..}}\<close>; the
  navigator keeps \<open>self.features\<close>, \<open>self.current_index\<close> and \<open>self.oid_map\<close>. The project,
  map and layer handles are not part of the model.
\<close>

record 'g feature =
  oid :: int
  geometry :: 'g
  attributes :: "string \<rightharpoonup> pyval"

record 'g navigator =
  features :: "'g feature list"
  current_index :: int
  oid_map :: "int \<rightharpoonup> int"

text \<open>The fields as \<open>__init__\<close> sets them before it loads anything.\<close>

definition init_navigator :: "'g navigator" where
  "init_navigator = \<lparr>features = [], current_index = 0, oid_map = Map.empty\<rparr>"

text \<open>
  The body of \<open>for i, row in enumerate(cursor)\<close> in \<open>_load_features\<close>. The counter \<open>i\<close>
  advances on every row, also on a skipped one. The result says whether the cursor raised,
  and carries the fields as they were at that moment.
\<close>

fun load_loop :: "int \<Rightarrow> 'g cursor_item list \<Rightarrow> 'g navigator \<Rightarrow> exn option \<times> 'g navigator" where
  "load_loop i [] s = (None, s)"
| "load_loop i (ReadFailure # rest) s = (Some SourceReadError, s)"
| "load_loop i (Row None g # rest) s = load_loop (i + 1) rest s"
| "load_loop i (Row (Some k) g # rest) s =
     load_loop (i + 1) rest
       (s\<lparr>features := features s @ [\<lparr>oid = k, geometry = g, attributes = [''OID'' \<mapsto> PInt k]\<rparr>],
          oid_map := (oid_map s)(k \<mapsto> i)\<rparr>)"

text \<open>
  \<open>_load_features\<close>. The method returns nothing and traps every exception; the first
  component of the result records which exception, if any, reached the \<open>except\<close> branch.
  That branch assigns \<open>self.features = []\<close> and nothing else.
\<close>

definition FeatureNavigator_load_features ::
    "'g cursor_item list \<Rightarrow> 'g navigator \<Rightarrow> exn option \<times> 'g navigator" where
  "FeatureNavigator_load_features src s =
     (case load_loop 0 src (s\<lparr>features := [], oid_map := Map.empty\<rparr>) of
        (Some e, s') \<Rightarrow> (Some e, s'\<lparr>features := []\<rparr>)
      | (None, s') \<Rightarrow>
          if features s' = [] then (Some ValueError, s'\<lparr>features := []\<rparr>)
          else (None, s'\<lparr>current_index := 0\<rparr>))"

text \<open>
  The common tail of the four moving methods:
  \<open>feature = self.features[self.current_index]\<close>, then \<open>pan_to_feature\<close>, \<open>_print_info\<close>
  and \<open>return True\<close>. The list read may raise. \<open>pan_to_feature\<close> traps every exception and
  only drives the view; \<open>_print_info\<close> repeats the read that has just succeeded and prints.
  Neither assigns a field of the navigator.
\<close>

definition pan_and_print :: "'g navigator \<Rightarrow> (exn + bool) \<times> 'g navigator" where
  "pan_and_print s =
     (case list_item (features s) (current_index s) of
        None \<Rightarrow> (Inl IndexError, s)
      | Some f \<Rightarrow> (Inr True, s))"

definition next_feature :: "'g navigator \<Rightarrow> (exn + bool) \<times> 'g navigator" where
  "next_feature s =
     (if features s = [] then (Inr False, s)
      else pan_and_print
             (s\<lparr>current_index := (current_index s + 1) mod int (length (features s))\<rparr>))"

definition previous_feature :: "'g navigator \<Rightarrow> (exn + bool) \<times> 'g navigator" where
  "previous_feature s =
     (if features s = [] then (Inr False, s)
      else pan_and_print
             (s\<lparr>current_index := (current_index s - 1) mod int (length (features s))\<rparr>))"

definition go_to_oid :: "int \<Rightarrow> 'g navigator \<Rightarrow> (exn + bool) \<times> 'g navigator" where
  "go_to_oid k s =
     (case oid_map s k of
        None \<Rightarrow> (Inr False, s)
      | Some p \<Rightarrow> pan_and_print (s\<lparr>current_index := p\<rparr>))"

definition go_to_index :: "int \<Rightarrow> 'g navigator \<Rightarrow> (exn + bool) \<times> 'g navigator" where
  "go_to_index i s =
     (if i < 0 \<or> i \<ge> int (length (features s)) then (Inr False, s)
      else pan_and_print (s\<lparr>current_index := i\<rparr>))"

definition get_current_info :: "'g navigator \<Rightarrow> exn + 'g feature option" where
  "get_current_info s =
     (if features s = [] then Inr None
      else case list_item (features s) (current_index s) of
             None \<Rightarrow> Inl IndexError
           | Some f \<Rightarrow> Inr (Some f))"

text \<open>
  \<open>filter_by_attribute\<close>: the loop over \<open>enumerate(self.features)\<close> with its accumulator
  \<open>matches\<close>, then the method itself.
\<close>

fun filter_loop :: "string \<Rightarrow> pyval \<Rightarrow> int \<Rightarrow> 'g feature list \<Rightarrow> int list \<Rightarrow> int list" where
  "filter_loop field v i [] matches = matches"
| "filter_loop field v i (f # fs) matches =
     filter_loop field v (i + 1) fs
       (if py_eq (dict_get (attributes f) field) v then matches @ [i] else matches)"

definition filter_by_attribute :: "string \<Rightarrow> pyval \<Rightarrow> 'g navigator \<Rightarrow> int list" where
  "filter_by_attribute field v s = filter_loop field v 0 (features s) []"

definition jump_to_filtered :: "string \<Rightarrow> pyval \<Rightarrow> 'g navigator \<Rightarrow> (exn + bool) \<times> 'g navigator" where
  "jump_to_filtered field v s =
     (case filter_by_attribute field v s of
        [] \<Rightarrow> (Inr False, s)
      | m # _ \<Rightarrow> go_to_index m s)"

section \<open>navigateLayerArcMap.py: class NavigationTool\<close>

text \<open>
  A stored record is \<open>{'oid': row[0], 'shape': row[1]}\<close>, the identifier kept as read
  (possibly \<open>None\<close>). The tool keeps \<open>self.feature_records\<close> and \<open>self.current_index\<close>; the
  field names carry a prefix here because the navigator's record already uses them.
\<close>

record 'g feature_record =
  record_oid :: "int option"
  shape :: 'g

record 'g navigation_tool =
  feature_records :: "'g feature_record list"
  tool_current_index :: int

fun record_loop :: "'g cursor_item list \<Rightarrow> 'g navigation_tool \<Rightarrow> exn option \<times> 'g navigation_tool" where
  "record_loop [] t = (None, t)"
| "record_loop (ReadFailure # rest) t = (Some SourceReadError, t)"
| "record_loop (Row k g # rest) t =
     record_loop rest
       (t\<lparr>feature_records := feature_records t @ [\<lparr>record_oid = k, shape = g\<rparr>]\<rparr>)"

text \<open>
  \<open>load_features\<close>. Its \<open>except\<close> branch only shows a message box; an empty result is a
  warning, not an exception.
\<close>

definition NavigationTool_load_features ::
    "'g cursor_item list \<Rightarrow> 'g navigation_tool \<Rightarrow> exn option \<times> 'g navigation_tool" where
  "NavigationTool_load_features src t =
     (case record_loop src (t\<lparr>feature_records := []\<rparr>) of
        (Some e, t') \<Rightarrow> (Some e, t')
      | (None, t') \<Rightarrow>
          if feature_records t' \<noteq> [] then (None, t'\<lparr>tool_current_index := 0\<rparr>)
          else (None, t'))"

text \<open>
  \<open>next_record\<close> and \<open>previous_record\<close> return nothing; the first component is the
  \<open>IndexError\<close> of \<open>self.feature_records[self.current_index]\<close> when that read raises.
\<close>

definition next_record :: "'g navigation_tool \<Rightarrow> exn option \<times> 'g navigation_tool" where
  "next_record t =
     (if feature_records t = [] then (None, t)
      else
        let t' = (if tool_current_index t < int (length (feature_records t)) - 1
                  then t\<lparr>tool_current_index := tool_current_index t + 1\<rparr>
                  else t\<lparr>tool_current_index := 0\<rparr>)
        in case list_item (feature_records t') (tool_current_index t') of
             None \<Rightarrow> (Some IndexError, t')
           | Some r \<Rightarrow> (None, t'))"

definition previous_record :: "'g navigation_tool \<Rightarrow> exn option \<times> 'g navigation_tool" where
  "previous_record t =
     (if feature_records t = [] then (None, t)
      else
        let t' = (if tool_current_index t > 0
                  then t\<lparr>tool_current_index := tool_current_index t - 1\<rparr>
                  else t\<lparr>tool_current_index := int (length (feature_records t)) - 1\<rparr>)
        in case list_item (feature_records t') (tool_current_index t') of
             None \<Rightarrow> (Some IndexError, t')
           | Some r \<Rightarrow> (None, t'))"

section \<open>Example stores\<close>

text \<open>
  The store of the specification's worked example, identifiers 10, 20 and 30 loaded in that
  order, as each of the two classes holds it; the cursor stands on the last record.
\<close>

definition example_navigator :: "unit navigator" where
  "example_navigator =
     \<lparr>features = [\<lparr>oid = 10, geometry = (), attributes = [''OID'' \<mapsto> PInt 10]\<rparr>,
                  \<lparr>oid = 20, geometry = (), attributes = [''OID'' \<mapsto> PInt 20]\<rparr>,
                  \<lparr>oid = 30, geometry = (), attributes = [''OID'' \<mapsto> PInt 30]\<rparr>],
      current_index = 2,
      oid_map = [10 \<mapsto> 0, 20 \<mapsto> 1, 30 \<mapsto> 2]\<rparr>"

definition example_tool :: "unit navigation_tool" where
  "example_tool =
     \<lparr>feature_records = [\<lparr>record_oid = Some 10, shape = ()\<rparr>,
                         \<lparr>record_oid = Some 20, shape = ()\<rparr>,
                         \<lparr>record_oid = Some 30, shape = ()\<rparr>],
      tool_current_index = 2\<rparr>"

text \<open>
  Two sources for the runs below: one whose first row has no identifier, and one whose
  cursor raises after two rows.
\<close>

definition source_with_null_row :: "unit cursor_item list" where
  "source_with_null_row = [Row None (), Row (Some 7) (), Row (Some 8) ()]"

definition source_failing_midway :: "unit cursor_item list" where
  "source_failing_midway = [Row (Some 5) (), Row (Some 6) (), ReadFailure]"

section \<open>What the specification says a load stores\<close>

text \<open>
  \<open>scanned_rows\<close>: the rows a scan reads, in order, up to the end of the source or to the
  point where the cursor raises. \<open>spec_stored_rows\<close> follows the specification's words:
  rows whose identifier is null are skipped, every other row is appended in scan order with
  an attribute map seeded with the identifier.
\<close>

fun spec_stored_rows :: "'g cursor_item list \<Rightarrow> 'g feature list" where
  "spec_stored_rows [] = []"
| "spec_stored_rows (ReadFailure # rest) = []"
| "spec_stored_rows (Row None g # rest) = spec_stored_rows rest"
| "spec_stored_rows (Row (Some k) g # rest) =
     \<lparr>oid = k, geometry = g, attributes = [''OID'' \<mapsto> PInt k]\<rparr> # spec_stored_rows rest"

fun scanned_rows :: "'g cursor_item list \<Rightarrow> (int option \<times> 'g) list" where
  "scanned_rows [] = []"
| "scanned_rows (ReadFailure # rest) = []"
| "scanned_rows (Row k g # rest) = (k, g) # scanned_rows rest"

text \<open>
  The specification's invariant on the cursor: the store is empty, or the current position
  lies in \<open>[0, count)\<close>.
\<close>

definition cursor_in_range :: "'g navigator \<Rightarrow> bool" where
  "cursor_in_range s \<longleftrightarrow>
     features s = [] \<or> (0 \<le> current_index s \<and> current_index s < int (length (features s)))"

section \<open>Reading the list at the cursor\<close>

lemma pan_and_print_in_range:
  "0 \<le> current_index s \<Longrightarrow> current_index s < int (length (features s)) \<Longrightarrow>
   pan_and_print s = (Inr True, s)"
  by (simp add: pan_and_print_def list_item_def)

lemma pan_and_print_state: "snd (pan_and_print s) = s"
  by (simp add: pan_and_print_def split: option.splits)

section \<open>Cyclic stepping\<close>

lemma mod_step: "(a mod m + 1) mod m = (a + 1) mod (m::int)"
  by (simp add: mod_add_left_eq)

lemma next_feature_step:
  "features s \<noteq> [] \<Longrightarrow>
   next_feature s =
     (Inr True, s\<lparr>current_index := (current_index s + 1) mod int (length (features s))\<rparr>)"
  by (simp add: next_feature_def pan_and_print_in_range)

lemma next_feature_iter:
  "features s \<noteq> [] \<Longrightarrow>
   ((\<lambda>u. snd (next_feature u)) ^^ n) s =
     (if n = 0 then s
      else s\<lparr>current_index := (current_index s + int n) mod int (length (features s))\<rparr>)"
proof (induction n)
  case 0
  then show ?case by simp
next
  case (Suc n)
  have e: "current_index s + (1 + int n) = (current_index s + int n) + 1" by simp
  from Suc show ?case
    by (cases "n = 0") (simp_all add: next_feature_step mod_step e)
qed

lemma next_record_step:
  "feature_records t \<noteq> [] \<Longrightarrow> 0 \<le> tool_current_index t \<Longrightarrow>
   tool_current_index t < int (length (feature_records t)) \<Longrightarrow>
   next_record t =
     (None, t\<lparr>tool_current_index :=
                (tool_current_index t + 1) mod int (length (feature_records t))\<rparr>)"
proof -
  assume a: "feature_records t \<noteq> []" "0 \<le> tool_current_index t"
    "tool_current_index t < int (length (feature_records t))"
  let ?m = "int (length (feature_records t))"
  let ?c = "tool_current_index t"
  show ?thesis
  proof (cases "?c < ?m - 1")
    case True
    then have "(?c + 1) mod ?m = ?c + 1" using a by simp
    with True a show ?thesis by (simp add: next_record_def list_item_def)
  next
    case False
    then have "?c = ?m - 1" using a by simp
    then have "(?c + 1) mod ?m = 0" by simp
    with False a show ?thesis by (simp add: next_record_def list_item_def)
  qed
qed

lemma next_record_iter:
  "feature_records t \<noteq> [] \<Longrightarrow> 0 \<le> tool_current_index t \<Longrightarrow>
   tool_current_index t < int (length (feature_records t)) \<Longrightarrow>
   ((\<lambda>u. snd (next_record u)) ^^ n) t =
     (if n = 0 then t
      else t\<lparr>tool_current_index :=
               (tool_current_index t + int n) mod int (length (feature_records t))\<rparr>)"
proof (induction n)
  case 0
  then show ?case by simp
next
  case (Suc n)
  have e: "tool_current_index t + (1 + int n) = (tool_current_index t + int n) + 1" by simp
  from Suc show ?case
    by (cases "n = 0") (simp_all add: next_record_step mod_step e)
qed

text \<open>
  Claim C6. On a non-empty store of size \<open>N\<close> with the cursor in \<open>[0, N)\<close>, one step of
  \<open>next_feature\<close> (ArcGIS Pro) and of \<open>next_record\<close> (ArcMap) succeeds and sets the cursor
  to \<open>(cursor + 1) mod N\<close>, so the last record is followed by the first, and \<open>N\<close> steps
  bring the navigator back to the state it started from.
\<close>

theorem next_ring_closure:
  "(features s \<noteq> [] \<and> 0 \<le> current_index s \<and> current_index s < int (length (features s)) \<longrightarrow>
      next_feature s =
        (Inr True, s\<lparr>current_index := (current_index s + 1) mod int (length (features s))\<rparr>) \<and>
      ((\<lambda>u. snd (next_feature u)) ^^ length (features s)) s = s) \<and>
   (feature_records t \<noteq> [] \<and> 0 \<le> tool_current_index t \<and>
    tool_current_index t < int (length (feature_records t)) \<longrightarrow>
      next_record t =
        (None, t\<lparr>tool_current_index :=
                   (tool_current_index t + 1) mod int (length (feature_records t))\<rparr>) \<and>
      ((\<lambda>u. snd (next_record u)) ^^ length (feature_records t)) t = t)"
  by (simp add: next_feature_step next_feature_iter next_record_step next_record_iter)

theorem next_ring_closure_witness:
  "(features example_navigator \<noteq> [] \<and> 0 \<le> current_index example_navigator \<and>
    current_index example_navigator < int (length (features example_navigator))) \<and>
   ((\<lambda>u. snd (next_feature u)) ^^ length (features example_navigator)) example_navigator
     = example_navigator \<and>
   (feature_records example_tool \<noteq> [] \<and> 0 \<le> tool_current_index example_tool \<and>
    tool_current_index example_tool < int (length (feature_records example_tool))) \<and>
   ((\<lambda>u. snd (next_record u)) ^^ length (feature_records example_tool)) example_tool
     = example_tool"
proof -
  have h: "features example_navigator \<noteq> [] \<and> 0 \<le> current_index example_navigator \<and>
      current_index example_navigator < int (length (features example_navigator))"
    by (simp add: example_navigator_def)
  have k: "feature_records example_tool \<noteq> [] \<and> 0 \<le> tool_current_index example_tool \<and>
      tool_current_index example_tool < int (length (feature_records example_tool))"
    by (simp add: example_tool_def)
  from next_ring_closure [of example_navigator example_tool] h k show ?thesis
    by blast
qed

section \<open>Jumping to a position\<close>

text \<open>
  Claim C7. \<open>go_to_index i\<close> returns \<open>True\<close> exactly when \<open>0 \<le> i < count\<close>. Outside
  that range it returns \<open>False\<close> and the navigator (cursor and store) is what it was;
  inside it, only the cursor changes, and it equals \<open>i\<close>.
\<close>

theorem go_to_index_spec:
  "(fst (go_to_index i s) = Inr True \<longleftrightarrow> 0 \<le> i \<and> i < int (length (features s))) \<and>
   (\<not> (0 \<le> i \<and> i < int (length (features s))) \<longrightarrow> go_to_index i s = (Inr False, s)) \<and>
   (0 \<le> i \<and> i < int (length (features s)) \<longrightarrow>
      go_to_index i s = (Inr True, s\<lparr>current_index := i\<rparr>))"
  by (auto simp: go_to_index_def pan_and_print_in_range)

theorem go_to_index_spec_witness:
  "go_to_index 1 example_navigator = (Inr True, example_navigator\<lparr>current_index := 1\<rparr>) \<and>
   go_to_index 3 example_navigator = (Inr False, example_navigator) \<and>
   go_to_index (- 1) example_navigator = (Inr False, example_navigator)"
proof -
  have len: "int (length (features example_navigator)) = 3"
    by (simp add: example_navigator_def)
  from go_to_index_spec [of 1 example_navigator] go_to_index_spec [of 3 example_navigator]
    go_to_index_spec [of "- 1" example_navigator] len
  show ?thesis by simp
qed

section \<open>Filtering by attribute\<close>

lemma upt_Suc_shift: "[0..<Suc n] = 0 # map Suc [0..<n]"
proof -
  have "[0..<Suc n] = 0 # [Suc 0..<Suc n]" by (rule upt_conv_Cons) simp
  then show ?thesis by (simp only: map_Suc_upt)
qed

lemma filter_loop_eq:
  "filter_loop field v i fs acc =
     acc @ map (\<lambda>k. i + int k)
             (filter (\<lambda>k. py_eq (dict_get (attributes (fs ! k)) field) v) [0..<length fs])"
proof (induction fs arbitrary: i acc)
  case Nil
  then show ?case by simp
next
  case (Cons f fs)
  have u: "[0..<length (f # fs)] = 0 # map Suc [0..<length fs]"
    by (simp only: length_Cons upt_Suc_shift)
  show ?case
    unfolding u by (simp add: Cons.IH filter_map comp_def add.assoc)
qed

lemma filter_by_attribute_eq:
  "filter_by_attribute field v s =
     map int (filter (\<lambda>k. py_eq (dict_get (attributes (features s ! k)) field) v)
                [0..<length (features s)])"
  by (simp add: filter_by_attribute_def filter_loop_eq)

lemma filter_by_attribute_sorted: "sorted_wrt (<) (filter_by_attribute field v s)"
  unfolding filter_by_attribute_eq
  by (simp add: sorted_wrt_map sorted_wrt_filter)

lemma filter_by_attribute_set:
  "set (filter_by_attribute field v s) =
     {i. 0 \<le> i \<and> i < int (length (features s)) \<and>
         py_eq (dict_get (attributes (features s ! nat i)) field) v}"
proof (rule set_eqI)
  fix i
  let ?P = "\<lambda>k. py_eq (dict_get (attributes (features s ! k)) field) v"
  show "i \<in> set (filter_by_attribute field v s) \<longleftrightarrow>
        i \<in> {i. 0 \<le> i \<and> i < int (length (features s)) \<and> ?P (nat i)}"
  proof
    assume "i \<in> set (filter_by_attribute field v s)"
    then obtain k where "k < length (features s)" "?P k" "i = int k"
      by (auto simp: filter_by_attribute_eq)
    then show "i \<in> {i. 0 \<le> i \<and> i < int (length (features s)) \<and> ?P (nat i)}" by simp
  next
    assume "i \<in> {i. 0 \<le> i \<and> i < int (length (features s)) \<and> ?P (nat i)}"
    then have "nat i < length (features s)" "?P (nat i)" "i = int (nat i)" by auto
    then have "i \<in> int ` {k \<in> set [0..<length (features s)]. ?P k}" by (intro image_eqI[of _ _ "nat i"]) auto
    then show "i \<in> set (filter_by_attribute field v s)"
      by (simp add: filter_by_attribute_eq)
  qed
qed








lemma sorted_wrt_less_hd:
  "sorted_wrt (<) ms \<Longrightarrow> j \<in> set ms \<Longrightarrow> hd ms \<le> (j::int)"
  by (cases ms) auto

text \<open>
  Claim C9. \<open>jump_to_filtered\<close> runs the filter. With no match it returns \<open>False\<close> and the
  navigator, cursor included, is unchanged. With a match it is \<open>go_to_index\<close> on the first
  element of the filter's result, which is the lowest matching position, and that call
  succeeds and puts the cursor there.
\<close>

theorem jump_to_filtered_spec:
  "(filter_by_attribute field v s = [] \<longrightarrow> jump_to_filtered field v s = (Inr False, s)) \<and>
   (filter_by_attribute field v s \<noteq> [] \<longrightarrow>
      jump_to_filtered field v s = go_to_index (hd (filter_by_attribute field v s)) s \<and>
      jump_to_filtered field v s =
        (Inr True, s\<lparr>current_index := hd (filter_by_attribute field v s)\<rparr>) \<and>
      (\<forall>j \<in> set (filter_by_attribute field v s). hd (filter_by_attribute field v s) \<le> j))"
proof (intro conjI impI)
  assume "filter_by_attribute field v s = []"
  then show "jump_to_filtered field v s = (Inr False, s)"
    by (simp add: jump_to_filtered_def)
next
  assume ne: "filter_by_attribute field v s \<noteq> []"
  let ?ms = "filter_by_attribute field v s"
  from ne show j: "jump_to_filtered field v s = go_to_index (hd ?ms) s"
    by (cases ?ms) (simp_all add: jump_to_filtered_def)
  from ne have "hd ?ms \<in> set ?ms" by simp
  then have "0 \<le> hd ?ms \<and> hd ?ms < int (length (features s))"
    unfolding filter_by_attribute_set by simp
  then have "go_to_index (hd ?ms) s = (Inr True, s\<lparr>current_index := hd ?ms\<rparr>)"
    by (simp add: go_to_index_def pan_and_print_in_range)
  with j show "jump_to_filtered field v s = (Inr True, s\<lparr>current_index := hd ?ms\<rparr>)"
    by simp
  show "\<forall>j \<in> set ?ms. hd ?ms \<le> j"
    using sorted_wrt_less_hd [OF filter_by_attribute_sorted] by blast
qed

theorem jump_to_filtered_spec_witness:
  "filter_by_attribute ''OID'' (PInt 20) example_navigator \<noteq> [] \<and>
   filter_by_attribute ''OID'' (PInt 99) example_navigator = [] \<and>
   jump_to_filtered ''OID'' (PInt 20) example_navigator =
     (Inr True, example_navigator\<lparr>current_index := 1\<rparr>) \<and>
   jump_to_filtered ''OID'' (PInt 99) example_navigator = (Inr False, example_navigator)"
proof -
  have a: "filter_by_attribute ''OID'' (PInt 20) example_navigator = [1]"
    by (simp add: filter_by_attribute_def example_navigator_def dict_get_def)
  then have a': "filter_by_attribute ''OID'' (PInt 20) example_navigator \<noteq> []"
    and h: "hd (filter_by_attribute ''OID'' (PInt 20) example_navigator) = 1"
    by simp_all
  have b: "filter_by_attribute ''OID'' (PInt 99) example_navigator = []"
    by (simp add: filter_by_attribute_def example_navigator_def dict_get_def)
  from jump_to_filtered_spec [of "''OID''" "PInt 20" example_navigator] a'
  have "jump_to_filtered ''OID'' (PInt 20) example_navigator =
      (Inr True, example_navigator
         \<lparr>current_index := hd (filter_by_attribute ''OID'' (PInt 20) example_navigator)\<rparr>)"
    by blast
  then have c: "jump_to_filtered ''OID'' (PInt 20) example_navigator =
      (Inr True, example_navigator\<lparr>current_index := 1\<rparr>)"
    by (simp only: h)
  from jump_to_filtered_spec [of "''OID''" "PInt 99" example_navigator] b
  have "jump_to_filtered ''OID'' (PInt 99) example_navigator = (Inr False, example_navigator)"
    by blast
  with a' b c show ?thesis by blast
qed

section \<open>Loading\<close>

lemma load_loop_features:
  "features (snd (load_loop i src s)) = features s @ spec_stored_rows src"
  by (induction i src s rule: load_loop.induct) simp_all

lemma load_loop_raised:
  "fst (load_loop i src s) = (if ReadFailure \<in> set src then Some SourceReadError else None)"
  by (induction i src s rule: load_loop.induct) simp_all

lemma load_loop_current_index:
  "current_index (snd (load_loop i src s)) = current_index s"
  by (induction i src s rule: load_loop.induct) simp_all

lemma load_features_success:
  "fst (FeatureNavigator_load_features src s) = None \<longleftrightarrow>
     ReadFailure \<notin> set src \<and> spec_stored_rows src \<noteq> []"
  using load_loop_raised [of 0 src "s\<lparr>features := [], oid_map := Map.empty\<rparr>"]
    load_loop_features [of 0 src "s\<lparr>features := [], oid_map := Map.empty\<rparr>"]
  by (auto simp: FeatureNavigator_load_features_def split: prod.splits option.splits if_splits)

lemma load_features_features:
  "features (snd (FeatureNavigator_load_features src s)) =
     (if fst (FeatureNavigator_load_features src s) = None then spec_stored_rows src else [])"
  using load_loop_features [of 0 src "s\<lparr>features := [], oid_map := Map.empty\<rparr>"]
  by (auto simp: FeatureNavigator_load_features_def split: prod.splits option.splits if_splits)

lemma load_features_current_index:
  "fst (FeatureNavigator_load_features src s) = None \<Longrightarrow>
   current_index (snd (FeatureNavigator_load_features src s)) = 0"
  by (auto simp: FeatureNavigator_load_features_def split: prod.splits option.splits if_splits)

lemma length_spec_stored_rows:
  "length (spec_stored_rows src) = length (filter (\<lambda>r. fst r \<noteq> None) (scanned_rows src))"
  by (induction src rule: spec_stored_rows.induct) simp_all

lemma record_loop_records:
  "feature_records (snd (record_loop src t)) =
     feature_records t @ map (\<lambda>(k, g). \<lparr>record_oid = k, shape = g\<rparr>) (scanned_rows src)"
  by (induction src t rule: record_loop.induct) simp_all

lemma record_loop_raised:
  "fst (record_loop src t) = (if ReadFailure \<in> set src then Some SourceReadError else None)"
  by (induction src t rule: record_loop.induct) simp_all

lemma tool_load_records:
  "feature_records (snd (NavigationTool_load_features src t)) =
     map (\<lambda>(k, g). \<lparr>record_oid = k, shape = g\<rparr>) (scanned_rows src)"
  using record_loop_records [of src "t\<lparr>feature_records := []\<rparr>"]
  by (auto simp: NavigationTool_load_features_def split: prod.splits option.splits if_splits)

lemma tool_load_raised:
  "fst (NavigationTool_load_features src t) =
     (if ReadFailure \<in> set src then Some SourceReadError else None)"
  using record_loop_raised [of src "t\<lparr>feature_records := []\<rparr>"]
  by (auto simp: NavigationTool_load_features_def split: prod.splits option.splits if_splits)

lemma spec_stored_rows_seeded:
  "f \<in> set (spec_stored_rows src) \<Longrightarrow> attributes f = [''OID'' \<mapsto> PInt (oid f)]"
  by (induction src rule: spec_stored_rows.induct) auto

text \<open>
  Claim C5, as amended. In \<open>FeatureNavigator._load_features\<close> (ArcGIS Pro) a scanned row
  with a null identifier is not stored and every other row is appended in scan order with
  the attribute map \<open>{'OID': oid}\<close>, so after a successful load the count is the number of
  scanned rows with a non-null identifier. \<open>NavigationTool.load_features\<close> (ArcMap) has no
  such test and no attribute map: it appends every scanned row, a null identifier included,
  so its count after a load that did not raise is the number of scanned rows.
\<close>

theorem load_stores_valid_rows:
  "(fst (FeatureNavigator_load_features src s) = None \<longrightarrow>
      features (snd (FeatureNavigator_load_features src s)) = spec_stored_rows src \<and>
      length (features (snd (FeatureNavigator_load_features src s))) =
        length (filter (\<lambda>r. fst r \<noteq> None) (scanned_rows src))) \<and>
   (fst (NavigationTool_load_features src t) = None \<longrightarrow>
      feature_records (snd (NavigationTool_load_features src t)) =
        map (\<lambda>(k, g). \<lparr>record_oid = k, shape = g\<rparr>) (scanned_rows src) \<and>
      length (feature_records (snd (NavigationTool_load_features src t))) =
        length (scanned_rows src))"
  by (simp add: load_features_features length_spec_stored_rows tool_load_records)

text \<open>
  The claim as written fails on the ArcMap loader: of two scanned rows, one with a null
  identifier, both are stored.
\<close>

theorem tool_load_keeps_null_rows_counterexample:
  "fst (NavigationTool_load_features [Row None (), Row (Some 7) ()] example_tool) = None \<and>
   map record_oid
     (feature_records (snd (NavigationTool_load_features [Row None (), Row (Some 7) ()] example_tool)))
     = [None, Some 7] \<and>
   length (filter (\<lambda>r. fst r \<noteq> None) (scanned_rows [Row None (), Row (Some 7) ()])) = 1"
  by (simp add: NavigationTool_load_features_def)

theorem load_stores_valid_rows_witness:
  "fst (FeatureNavigator_load_features [Row None (), Row (Some 7) ()] init_navigator) = None \<and>
   features (snd (FeatureNavigator_load_features [Row None (), Row (Some 7) ()] init_navigator)) =
     [\<lparr>oid = 7, geometry = (), attributes = [''OID'' \<mapsto> PInt 7]\<rparr>] \<and>
   fst (NavigationTool_load_features [Row None (), Row (Some 7) ()] example_tool) = None \<and>
   feature_records (snd (NavigationTool_load_features [Row None (), Row (Some 7) ()] example_tool)) =
     [\<lparr>record_oid = None, shape = ()\<rparr>, \<lparr>record_oid = Some 7, shape = ()\<rparr>]"
proof -
  have a: "fst (FeatureNavigator_load_features [Row None (), Row (Some 7) ()] init_navigator) = None"
    by (simp add: FeatureNavigator_load_features_def init_navigator_def)
  have b: "fst (NavigationTool_load_features [Row None (), Row (Some 7) ()] example_tool) = None"
    by (simp add: NavigationTool_load_features_def)
  from load_stores_valid_rows [of "[Row None (), Row (Some 7) ()]" init_navigator example_tool] a b
  show ?thesis by simp
qed

section \<open>Filtering a loaded store\<close>

lemma filter_by_attribute_seeded:
  assumes seeded: "\<forall>f \<in> set (features s). attributes f = [''OID'' \<mapsto> PInt (oid f)]"
    and other: "field \<noteq> ''OID''"
  shows "filter_by_attribute field v s =
           (if v = PNone then map int [0..<length (features s)] else [])"
proof -
  let ?P = "\<lambda>k. py_eq (dict_get (attributes (features s ! k)) field) v"
  have "?P k \<longleftrightarrow> v = PNone" if "k \<in> set [0..<length (features s)]" for k
  proof -
    from that have "features s ! k \<in> set (features s)" by simp
    with seeded have "attributes (features s ! k) = [''OID'' \<mapsto> PInt (oid (features s ! k))]"
      by blast
    with other have "dict_get (attributes (features s ! k)) field = PNone"
      by (simp add: dict_get_def)
    then show ?thesis by (cases v) simp_all
  qed
  then have "filter ?P [0..<length (features s)] =
      filter (\<lambda>k. v = PNone) [0..<length (features s)]"
    by (intro filter_cong) auto
  then show ?thesis by (simp add: filter_by_attribute_eq)
qed

text \<open>
  Claim C10, as amended. On the store of a successful load, wherever the cursor stands, and
  for a field name other than \<open>OID\<close>: for every value other than \<open>None\<close> the filter
  returns the empty list and \<open>jump_to_filtered\<close> returns \<open>False\<close> without changing the
  navigator; for the value \<open>None\<close> the filter returns every position and
  \<open>jump_to_filtered\<close> succeeds and puts the cursor on position 0.
\<close>

theorem loaded_store_filter_other_field:
  assumes ok: "fst (FeatureNavigator_load_features src s0) = None"
    and same: "features s = features (snd (FeatureNavigator_load_features src s0))"
    and other: "field \<noteq> ''OID''"
  shows "(v \<noteq> PNone \<longrightarrow>
            filter_by_attribute field v s = [] \<and>
            jump_to_filtered field v s = (Inr False, s)) \<and>
         (v = PNone \<longrightarrow>
            filter_by_attribute field v s = map int [0..<length (features s)] \<and>
            jump_to_filtered field v s = (Inr True, s\<lparr>current_index := 0\<rparr>))"
proof -
  from ok same have fs: "features s = spec_stored_rows src"
    by (simp add: load_features_features)
  then have seeded: "\<forall>f \<in> set (features s). attributes f = [''OID'' \<mapsto> PInt (oid f)]"
    by (simp add: spec_stored_rows_seeded)
  note flt = filter_by_attribute_seeded [OF seeded other]
  from ok fs have ne: "features s \<noteq> []" by (simp add: load_features_success)
  then have u: "[0..<length (features s)] = 0 # [Suc 0..<length (features s)]"
    by (intro upt_conv_Cons) simp
  have "jump_to_filtered field PNone s = go_to_index 0 s"
    by (simp add: jump_to_filtered_def flt [of PNone] u)
  also from ne have "\<dots> = (Inr True, s\<lparr>current_index := 0\<rparr>)"
    by (simp add: go_to_index_def pan_and_print_in_range)
  finally have j: "jump_to_filtered field PNone s = (Inr True, s\<lparr>current_index := 0\<rparr>)" .
  show ?thesis
    using flt [of v] j by (auto simp: jump_to_filtered_def)
qed

text \<open>
  The claim as written fails for the value \<open>None\<close>: on a loaded store of two records the
  filter on the absent field \<open>NAME\<close> returns both positions, and the jump moves the cursor
  from 1 to 0.
\<close>

theorem filter_other_field_none_counterexample:
  "fst (FeatureNavigator_load_features [Row (Some 10) (), Row (Some 20) ()] init_navigator) = None \<and>
   filter_by_attribute ''NAME'' PNone
     (snd (FeatureNavigator_load_features [Row (Some 10) (), Row (Some 20) ()] init_navigator))
     = [0, 1] \<and>
   current_index (snd (next_feature
     (snd (FeatureNavigator_load_features [Row (Some 10) (), Row (Some 20) ()] init_navigator)))) = 1 \<and>
   fst (jump_to_filtered ''NAME'' PNone (snd (next_feature
     (snd (FeatureNavigator_load_features [Row (Some 10) (), Row (Some 20) ()] init_navigator)))))
     = Inr True \<and>
   current_index (snd (jump_to_filtered ''NAME'' PNone (snd (next_feature
     (snd (FeatureNavigator_load_features [Row (Some 10) (), Row (Some 20) ()] init_navigator))))))
     = 0"
  by (simp add: FeatureNavigator_load_features_def init_navigator_def next_feature_def
      pan_and_print_def list_item_def jump_to_filtered_def filter_by_attribute_def
      go_to_index_def dict_get_def)

theorem loaded_store_filter_other_field_witness:
  "fst (FeatureNavigator_load_features [Row (Some 10) (), Row (Some 20) ()] init_navigator) = None \<and>
   ''NAME'' \<noteq> ''OID'' \<and> PStr ''a'' \<noteq> PNone \<and>
   filter_by_attribute ''NAME'' (PStr ''a'')
     (snd (FeatureNavigator_load_features [Row (Some 10) (), Row (Some 20) ()] init_navigator)) = [] \<and>
   jump_to_filtered ''NAME'' (PStr ''a'')
     (snd (FeatureNavigator_load_features [Row (Some 10) (), Row (Some 20) ()] init_navigator)) =
     (Inr False,
      snd (FeatureNavigator_load_features [Row (Some 10) (), Row (Some 20) ()] init_navigator))"
proof -
  have a: "fst (FeatureNavigator_load_features [Row (Some 10) (), Row (Some 20) ()]
             (init_navigator :: unit navigator)) = None"
    by (simp add: FeatureNavigator_load_features_def init_navigator_def)
  have b: "''NAME'' \<noteq> ''OID''" by simp
  have c: "PStr ''a'' \<noteq> PNone" by simp
  from loaded_store_filter_other_field [OF a refl b, of "PStr ''a''"] a b c
  show ?thesis by blast
qed

section \<open>The identifier index after a load\<close>

text \<open>
  When every scanned row carries an identifier and no identifier occurs twice, the index
  built by the load sends each stored record's identifier to that record's position.
\<close>

lemma load_loop_oid_map_other:
  "k \<notin> oid ` set (spec_stored_rows src) \<Longrightarrow>
   oid_map (snd (load_loop i src s)) k = oid_map s k"
  by (induction i src s rule: load_loop.induct) auto

lemma load_loop_oid_map_position:
  "\<forall>x \<in> set src. \<exists>k g. x = Row (Some k) g \<Longrightarrow>
   distinct (map oid (spec_stored_rows src)) \<Longrightarrow> p < length (spec_stored_rows src) \<Longrightarrow>
   oid_map (snd (load_loop i src s)) (oid (spec_stored_rows src ! p)) = Some (i + int p)"
proof (induction i src s arbitrary: p rule: load_loop.induct)
  case (4 i k g rest s)
  show ?case
  proof (cases p)
    case 0
    from "4.prems"(2) have "k \<notin> oid ` set (spec_stored_rows rest)" by auto
    then show ?thesis using 0 by (simp add: load_loop_oid_map_other)
  next
    case (Suc q)
    with "4.prems" have "oid_map (snd (load_loop (i + 1) rest
        (s\<lparr>features := features s @ [\<lparr>oid = k, geometry = g, attributes = [''OID'' \<mapsto> PInt k]\<rparr>],
           oid_map := (oid_map s)(k \<mapsto> i)\<rparr>))) (oid (spec_stored_rows rest ! q)) = Some (i + 1 + int q)"
      by (intro "4.IH") auto
    with Suc show ?thesis by (simp add: add.assoc)
  qed
qed auto

lemma load_index_inverse_without_null_rows:
  assumes rows: "\<forall>x \<in> set src. \<exists>k g. x = Row (Some k) g"
    and ids: "distinct (map oid (spec_stored_rows src))"
    and ok: "fst (FeatureNavigator_load_features src s) = None"
    and p: "p < length (features (snd (FeatureNavigator_load_features src s)))"
  shows "oid_map (snd (FeatureNavigator_load_features src s))
           (oid (features (snd (FeatureNavigator_load_features src s)) ! p)) = Some (int p)"
proof -
  let ?s0 = "s\<lparr>features := [], oid_map := Map.empty\<rparr>"
  from ok p have q: "p < length (spec_stored_rows src)"
    by (simp add: load_features_features)
  have m: "oid_map (snd (FeatureNavigator_load_features src s)) = oid_map (snd (load_loop 0 src ?s0))"
    by (simp add: FeatureNavigator_load_features_def split: prod.splits option.splits)
  from load_loop_oid_map_position [OF rows ids q, of 0 ?s0] ok show ?thesis
    by (simp add: m load_features_features)
qed

section \<open>The cursor invariant\<close>

text \<open>
  The load and every moving method except \<open>go_to_oid\<close> keep the cursor in range, and on an
  empty store those methods return \<open>False\<close> and change nothing.
\<close>

lemma cursor_in_range_load: "cursor_in_range (snd (FeatureNavigator_load_features src s))"
  using load_features_features [of src s] load_features_current_index [of src s]
    load_features_success [of src s]
  by (cases "fst (FeatureNavigator_load_features src s) = None") (auto simp: cursor_in_range_def)

lemma cursor_in_range_next: "cursor_in_range s \<Longrightarrow> cursor_in_range (snd (next_feature s))"
  by (auto simp: cursor_in_range_def next_feature_def pan_and_print_state)

lemma cursor_in_range_previous: "cursor_in_range s \<Longrightarrow> cursor_in_range (snd (previous_feature s))"
  by (auto simp: cursor_in_range_def previous_feature_def pan_and_print_state)

lemma cursor_in_range_go_to_index: "cursor_in_range s \<Longrightarrow> cursor_in_range (snd (go_to_index i s))"
  by (auto simp: cursor_in_range_def go_to_index_def pan_and_print_state)

lemma cursor_in_range_jump:
  "cursor_in_range s \<Longrightarrow> cursor_in_range (snd (jump_to_filtered field v s))"
  by (auto simp: jump_to_filtered_def cursor_in_range_go_to_index split: list.splits)

lemma empty_store_operations:
  "features s = [] \<Longrightarrow>
   next_feature s = (Inr False, s) \<and> previous_feature s = (Inr False, s) \<and>
   go_to_index i s = (Inr False, s) \<and> jump_to_filtered field v s = (Inr False, s)"
  by (auto simp: next_feature_def previous_feature_def go_to_index_def jump_to_filtered_def
      filter_by_attribute_def)

section \<open>Runs on a source with a null row and on a failing source\<close>

lemmas run_defs =
  FeatureNavigator_load_features_def NavigationTool_load_features_def init_navigator_def
  source_with_null_row_def source_failing_midway_def example_tool_def
  go_to_oid_def pan_and_print_def list_item_def get_current_info_def

text \<open>
  Claim C1. The index is meant to send each stored record's identifier to its position in
  \<open>features\<close>. The loop stores \<open>enumerate\<close>'s counter instead, which also counts skipped
  rows: after a successful load of a null row followed by the rows 7 and 8, the records 7
  and 8 stand at positions 0 and 1, while the index sends 7 to 1 and 8 to 2, and position 2
  does not exist.
\<close>

theorem load_index_shifted_by_null_row:
  "fst (FeatureNavigator_load_features source_with_null_row init_navigator) = None \<and>
   map oid (features (snd (FeatureNavigator_load_features source_with_null_row init_navigator)))
     = [7, 8] \<and>
   oid_map (snd (FeatureNavigator_load_features source_with_null_row init_navigator)) 7 = Some 1 \<and>
   oid_map (snd (FeatureNavigator_load_features source_with_null_row init_navigator)) 8 = Some 2 \<and>
   list_item (features (snd (FeatureNavigator_load_features source_with_null_row init_navigator))) 2
     = None"
  by (simp add: run_defs)

text \<open>
  Claim C2. On the same loaded store \<open>go_to_oid 7\<close> returns \<open>True\<close> but the current record
  is then the one with identifier 8, and \<open>go_to_oid 8\<close> raises \<open>IndexError\<close>.
\<close>

theorem go_to_oid_wrong_record_after_null_row:
  "fst (go_to_oid 7 (snd (FeatureNavigator_load_features source_with_null_row init_navigator)))
     = Inr True \<and>
   get_current_info
     (snd (go_to_oid 7 (snd (FeatureNavigator_load_features source_with_null_row init_navigator))))
     = Inr (Some \<lparr>oid = 8, geometry = (), attributes = [''OID'' \<mapsto> PInt 8]\<rparr>) \<and>
   fst (go_to_oid 8 (snd (FeatureNavigator_load_features source_with_null_row init_navigator)))
     = Inl IndexError"
  by (simp add: run_defs)

text \<open>
  Claim C3. \<open>go_to_oid\<close> assigns the cursor before it reads the list and has no test for an
  empty store. On the loaded store of two records, \<open>go_to_oid 8\<close> raises and leaves the
  cursor at 2. After the load that failed midway the store is empty with the cursor at 0,
  and \<open>go_to_oid 6\<close> raises and leaves the cursor at 1.
\<close>

theorem go_to_oid_breaks_cursor_range:
  "length (features (snd (FeatureNavigator_load_features source_with_null_row init_navigator))) = 2 \<and>
   fst (go_to_oid 8 (snd (FeatureNavigator_load_features source_with_null_row init_navigator)))
     = Inl IndexError \<and>
   current_index
     (snd (go_to_oid 8 (snd (FeatureNavigator_load_features source_with_null_row init_navigator))))
     = 2 \<and>
   features (snd (FeatureNavigator_load_features source_failing_midway init_navigator)) = [] \<and>
   current_index (snd (FeatureNavigator_load_features source_failing_midway init_navigator)) = 0 \<and>
   fst (go_to_oid 6 (snd (FeatureNavigator_load_features source_failing_midway init_navigator)))
     = Inl IndexError \<and>
   current_index
     (snd (go_to_oid 6 (snd (FeatureNavigator_load_features source_failing_midway init_navigator))))
     = 1"
  by (simp add: run_defs)

text \<open>
  Claim C4. A scan that raises after the rows 5 and 6: the ArcGIS Pro loader empties
  \<open>features\<close> but the index still holds the entries for 5 and 6; the ArcMap loader, called
  on a tool that held three records with the cursor at 2, keeps the two rows read so far and
  the old cursor.
\<close>

theorem failed_load_leaves_stale_data:
  "fst (FeatureNavigator_load_features source_failing_midway init_navigator)
     = Some SourceReadError \<and>
   features (snd (FeatureNavigator_load_features source_failing_midway init_navigator)) = [] \<and>
   oid_map (snd (FeatureNavigator_load_features source_failing_midway init_navigator)) 5 = Some 0 \<and>
   oid_map (snd (FeatureNavigator_load_features source_failing_midway init_navigator)) 6 = Some 1 \<and>
   fst (NavigationTool_load_features source_failing_midway example_tool) = Some SourceReadError \<and>
   map record_oid (feature_records (snd (NavigationTool_load_features source_failing_midway example_tool)))
     = [Some 5, Some 6] \<and>
   tool_current_index (snd (NavigationTool_load_features source_failing_midway example_tool)) = 2"
  by (simp add: run_defs)

end
